theory Spec2Isabelle
  imports Complex_Main "HOL-Library.Log_Nat"
begin

section \<open>The Sankey component of visx-sankey\<close>

text \<open>
  The component \<open>Sankey\<close> of \<^verbatim>\<open>packages/visx-sankey/src/Sankey.tsx\<close> configures a
  d3-sankey layout engine from its optional props, applies the engine once to the input
  graph, and renders either what the caller's \<open>children\<close> function returns or one
  \<open>path\<close> per link and one \<open>rect\<close> per node with defined bounds.

  The layout engine (\<open>d3sankey\<close>) and the link path generator (\<open>sankeyLinkHorizontal\<close>)
  are library code that the component calls. They are parameters of the model: every
  theorem below holds for every engine and every path generator.
\<close>

subsection \<open>JavaScript numbers\<close>

text \<open>
  A JavaScript \<open>number\<close> is an IEEE 754 double: a finite value, one of the two
  infinities, or \<open>NaN\<close>. A finite value is the real number it denotes; the sign of zero is
  not modelled. \<open>truthy\<close> is the test that \<^verbatim>\<open>if (v)\<close> makes on a number: \<open>0\<close> and
  \<open>NaN\<close> are falsy.
\<close>

datatype number = Finite real | PosInf | NegInf | NaN

definition truthy :: "number \<Rightarrow> bool" where
  "truthy v = (v \<noteq> Finite 0 \<and> v \<noteq> NaN)"

text \<open>
  The result of an arithmetic operation is the exact result rounded to the nearest
  double, ties to the even significand (\<open>to_double\<close>). Every finite double is an integer
  multiple of \<open>1 / 2 ^ 1074\<close> with a significand of at most 53 bits. So with \<open>u\<close> the
  exact result in units of \<open>1 / 2 ^ 1074\<close>, the doubles around it are the multiples of
  \<open>2 ^ s\<close> units, where \<open>s\<close> is the number of bits that the integer part of \<open>u\<close> has
  beyond 53 (none in the subnormal range). A result of magnitude at least
  \<open>2 ^ 1024 - 2 ^ 970\<close>, half an ulp above the largest double, overflows to an infinity.
\<close>

definition round_half_even :: "real \<Rightarrow> int" where
  "round_half_even x =
     (let n = \<lfloor>x\<rfloor>; d = x - of_int n
      in if d < 1 / 2 then n else if 1 / 2 < d then n + 1 else if even n then n else n + 1)"

definition to_double :: "real \<Rightarrow> number" where
  "to_double r =
     (if 2 ^ 1024 - 2 ^ 970 \<le> \<bar>r\<bar> then (if 0 < r then PosInf else NegInf)
      else
        let u = r * 2 ^ 1074;
            s = nat (bitlen \<lfloor>\<bar>u\<bar>\<rfloor> - 53)
        in Finite (of_int (round_half_even (u / 2 ^ s)) * 2 ^ s / 2 ^ 1074))"

text \<open>\<^verbatim>\<open>a - b\<close>\<close>

fun js_sub :: "number \<Rightarrow> number \<Rightarrow> number" where
  "js_sub NaN _ = NaN"
| "js_sub _ NaN = NaN"
| "js_sub (Finite a) (Finite b) = to_double (a - b)"
| "js_sub (Finite a) PosInf = NegInf"
| "js_sub (Finite a) NegInf = PosInf"
| "js_sub PosInf PosInf = NaN"
| "js_sub PosInf _ = PosInf"
| "js_sub NegInf NegInf = NaN"
| "js_sub NegInf _ = NegInf"

text \<open>\<^verbatim>\<open>Math.max(a, b)\<close>: \<open>NaN\<close> when either argument is \<open>NaN\<close>.\<close>

fun Math_max :: "number \<Rightarrow> number \<Rightarrow> number" where
  "Math_max NaN _ = NaN"
| "Math_max _ NaN = NaN"
| "Math_max PosInf _ = PosInf"
| "Math_max _ PosInf = PosInf"
| "Math_max NegInf b = b"
| "Math_max a NegInf = a"
| "Math_max (Finite a) (Finite b) = Finite (max a b)"

text \<open>\<^verbatim>\<open>a >= b\<close>: false when either side is \<open>NaN\<close>.\<close>

fun js_ge :: "number \<Rightarrow> number \<Rightarrow> bool" where
  "js_ge NaN _ = False"
| "js_ge _ NaN = False"
| "js_ge PosInf _ = True"
| "js_ge _ NegInf = True"
| "js_ge NegInf _ = False"
| "js_ge _ PosInf = False"
| "js_ge (Finite a) (Finite b) = (b \<le> a)"

subsection \<open>Graphs\<close>

text \<open>
  \<open>SankeyNode\<close> and \<open>SankeyLink\<close> are the caller's datum extended with the fields the
  layout computes. The component reads the four bounds of a node and the width of a link;
  each may be \<open>undefined\<close> (\<open>None\<close>). Everything else a node or link carries (the
  caller's properties, \<open>source\<close>, \<open>target\<close>, \<open>value\<close>, ...) is its datum.
\<close>

record 'n SankeyNode =
  x0 :: "number option"
  x1 :: "number option"
  y0 :: "number option"
  y1 :: "number option"
  node_datum :: 'n

record 'l SankeyLink =
  width :: "number option"
  link_datum :: 'l

record ('n, 'l) SankeyGraph =
  nodes :: "'n SankeyNode list"
  links :: "'l SankeyLink list"

subsection \<open>SVG attributes and the rendered tree\<close>

text \<open>
  \<open>LinkProps\<close> and \<open>NodeProps\<close> pick style attributes of an SVG element; a key of such an
  object may be absent, or present with a string, a number or \<open>undefined\<close>. An object is
  a map from its keys; a key that is present with the value \<open>undefined\<close> is \<open>Some
  Undefined\<close>, which the spread copies like any other.
  \<open>style_name\<close> lists the keys of \<open>LinkProps\<close>; \<open>NodeProps\<close> picks the first five.
\<close>

datatype style_name =
  Fill | FillOpacity | Stroke | StrokeOpacity | StrokeWidth | StrokeDasharray | StrokeDashoffset

datatype attr_name = Style style_name | D | Width | Height | X | Y

datatype attr = Str string | Num number | Undefined

type_synonym style_props = "style_name \<rightharpoonup> attr"

type_synonym element_props = "attr_name \<rightharpoonup> attr"

text \<open>
  \<^verbatim>\<open>{...own, ...props}\<close>: the attributes written before the spread, then every key of
  the spread object over them.
\<close>

definition spread :: "element_props \<Rightarrow> style_props \<Rightarrow> element_props" where
  "spread own props =
     (\<lambda>k. case k of
            Style s \<Rightarrow> (case props s of Some v \<Rightarrow> Some v | None \<Rightarrow> own k)
          | _ \<Rightarrow> own k)"

text \<open>
  The tree the component returns. \<open>path_el\<close> and \<open>rect_el\<close> carry their React key and
  their attributes; \<open>null\<close> is the \<^verbatim>\<open>null\<close> a skipped node leaves in the list;
  \<open>Rendered r\<close> is whatever the caller's \<open>children\<close> function returned.
\<close>

datatype 'r react_node =
    Fragment "'r react_node list"
  | Group "'r react_node list"
  | path_el nat element_props
  | rect_el nat element_props
  | null
  | Rendered 'r

subsection \<open>Props\<close>

datatype node_id = IdStr string | IdNum number

text \<open>
  \<open>SankeyProps\<close>: every field but \<open>root\<close> is optional (\<open>None\<close> when omitted).
  \<open>root\<close> and \<open>size\<close> are named \<open>root_prop\<close> and \<open>size_prop\<close> here.
\<close>

record ('n, 'l, 'r) SankeyProps =
  root_prop :: "('n, 'l) SankeyGraph"
  children :: "(('n, 'l) SankeyGraph \<Rightarrow> 'r) option"
  nodeId :: "('n SankeyNode \<Rightarrow> node_id) option"
  nodeWidth :: "number option"
  nodePadding :: "number option"
  nodeAlign :: "('n SankeyNode \<Rightarrow> number \<Rightarrow> number) option"
  extent :: "((number \<times> number) \<times> (number \<times> number)) option"
  size_prop :: "(number \<times> number) option"
  iterations :: "number option"
  nodeSort :: "('n SankeyNode \<Rightarrow> 'n SankeyNode \<Rightarrow> number option) option"
  linkSort :: "('l SankeyLink \<Rightarrow> 'l SankeyLink \<Rightarrow> number option) option"
  nodeProps :: "style_props option"
  linkProps :: "style_props option"
  sourceAccessor :: "('l SankeyLink \<Rightarrow> number \<times> number) option"
  targetAccessor :: "('l SankeyLink \<Rightarrow> number \<times> number) option"

subsection \<open>Configuring the layout engine and the path generator\<close>

text \<open>
  The engine that \<^verbatim>\<open>d3sankey()\<close> returns is configured by calling its setters. The
  model records the calls the component makes, in order: the engine the layout runs with
  is a fresh engine after exactly these calls. The component creates the engine anew at
  every render, so what the layout returns is taken as a function of these calls and of
  the graph. That the engine mutates the graph in place is not modelled.
\<close>

datatype ('n, 'l) sankey_call =
    call_nodeId "'n SankeyNode \<Rightarrow> node_id"
  | call_nodeWidth number
  | call_nodePadding number
  | call_nodeAlign "'n SankeyNode \<Rightarrow> number \<Rightarrow> number"
  | call_extent "(number \<times> number) \<times> (number \<times> number)"
  | call_size "number \<times> number"
  | call_iterations number
  | call_nodeSort "'n SankeyNode \<Rightarrow> 'n SankeyNode \<Rightarrow> number option"
  | call_linkSort "'l SankeyLink \<Rightarrow> 'l SankeyLink \<Rightarrow> number option"

datatype 'l path_call =
    call_source "'l SankeyLink \<Rightarrow> number \<times> number"
  | call_target "'l SankeyLink \<Rightarrow> number \<times> number"

text \<open>
  \<^verbatim>\<open>if (opt) sankey.opt(opt)\<close>, for a function or an array (always truthy when
  given) and for a number (truthy unless \<open>0\<close> or \<open>NaN\<close>).
\<close>

definition when_given :: "('a \<Rightarrow> 'c) \<Rightarrow> 'a option \<Rightarrow> 'c list" where
  "when_given call opt = (case opt of None \<Rightarrow> [] | Some v \<Rightarrow> [call v])"

definition when_truthy :: "(number \<Rightarrow> 'c) \<Rightarrow> number option \<Rightarrow> 'c list" where
  "when_truthy call opt =
     (case opt of None \<Rightarrow> [] | Some v \<Rightarrow> if truthy v then [call v] else [])"

definition configure :: "('n, 'l, 'r) SankeyProps \<Rightarrow> ('n, 'l) sankey_call list" where
  "configure p =
     when_given call_nodeId (nodeId p) @
     when_truthy call_nodeWidth (nodeWidth p) @
     when_truthy call_nodePadding (nodePadding p) @
     when_given call_nodeAlign (nodeAlign p) @
     when_given call_extent (extent p) @
     when_given call_size (size_prop p) @
     when_truthy call_iterations (iterations p) @
     when_given call_nodeSort (nodeSort p) @
     when_given call_linkSort (linkSort p)"

definition configure_path :: "('n, 'l, 'r) SankeyProps \<Rightarrow> 'l path_call list" where
  "configure_path p =
     when_given call_source (sourceAccessor p) @
     when_given call_target (targetAccessor p)"

subsection \<open>Rendering\<close>

text \<open>
  An exception the engine throws (a link whose node id is missing, a circular link)
  leaves the component uncaught, before anything is rendered.
\<close>

datatype error = Thrown string

definition DEFAULT_COLOR :: string where
  "DEFAULT_COLOR = ''#000''"

text \<open>The default \<open>path\<close> of link \<open>i\<close>; \<open>d\<close> is what the path generator returned.\<close>

definition link_path ::
  "style_props \<Rightarrow> string option \<Rightarrow> nat \<Rightarrow> 'l SankeyLink \<Rightarrow> 'r react_node" where
  "link_path lprops d i link =
     path_el i
       (spread
          [D \<mapsto> Str (case d of Some s \<Rightarrow> s | None \<Rightarrow> ''''),
           Style Fill \<mapsto> Str ''transparent'',
           Style Stroke \<mapsto> Str DEFAULT_COLOR,
           Style StrokeWidth \<mapsto>
             Num (Math_max (Finite 1) (case width link of Some w \<Rightarrow> w | None \<Rightarrow> Finite 0)),
           Style StrokeOpacity \<mapsto> Num (Finite (1 / 2))]
          lprops)"

text \<open>The default \<open>rect\<close> of node \<open>i\<close>, or \<open>null\<close> when a bound is undefined.\<close>

definition node_rect :: "style_props \<Rightarrow> nat \<Rightarrow> 'n SankeyNode \<Rightarrow> 'r react_node" where
  "node_rect nprops i node =
     (case (y0 node, y1 node, x0 node, x1 node) of
        (Some b0, Some b1, Some a0, Some a1) \<Rightarrow>
          rect_el i
            (spread
               [Style Fill \<mapsto> Str DEFAULT_COLOR,
                Width \<mapsto> Num (js_sub a1 a0),
                Height \<mapsto> Num (js_sub b1 b0),
                X \<mapsto> Num a0,
                Y \<mapsto> Num b0]
               nprops)
      | _ \<Rightarrow> null)"

text \<open>\<^verbatim>\<open>nodeProps = {}\<close>, \<^verbatim>\<open>linkProps = {}\<close>: the default of an omitted props object.\<close>

definition or_empty :: "style_props option \<Rightarrow> style_props" where
  "or_empty props = (case props of Some m \<Rightarrow> m | None \<Rightarrow> Map.empty)"

definition Sankey ::
  "(('n, 'l) sankey_call list \<Rightarrow> ('n, 'l) SankeyGraph \<Rightarrow> error + ('n, 'l) SankeyGraph) \<Rightarrow>
   ('l path_call list \<Rightarrow> 'l SankeyLink \<Rightarrow> string option) \<Rightarrow>
   ('n, 'l, 'r) SankeyProps \<Rightarrow> error + 'r react_node" where
  "Sankey d3sankey sankeyLinkHorizontal p =
     (case d3sankey (configure p) (root_prop p) of
        Inl e \<Rightarrow> Inl e
      | Inr graph \<Rightarrow>
          let path = sankeyLinkHorizontal (configure_path p) in
          (case children p of
             Some render \<Rightarrow> Inr (Fragment [Rendered (render graph)])
           | None \<Rightarrow>
               Inr (Fragment
                 [Group (map (\<lambda>(i, link). link_path (or_empty (linkProps p)) (path link) i link)
                           (enumerate 0 (links graph))),
                  Group (map (\<lambda>(i, node). node_rect (or_empty (nodeProps p)) i node)
                           (enumerate 0 (nodes graph)))])))"

subsection \<open>Reading the rendered tree\<close>

text \<open>
  The theorems speak about what the component returned: the elements of the first group
  (the links) and of the second (the nodes), the attributes of an element, and the
  \<open>path\<close> and \<open>rect\<close> elements anywhere in the tree. A render that threw has emitted
  nothing.
\<close>

fun link_elements :: "error + 'r react_node \<Rightarrow> 'r react_node list" where
  "link_elements (Inr (Fragment [Group ls, Group ns])) = ls"
| "link_elements _ = []"

fun node_elements :: "error + 'r react_node \<Rightarrow> 'r react_node list" where
  "node_elements (Inr (Fragment [Group ls, Group ns])) = ns"
| "node_elements _ = []"

fun attrs :: "'r react_node \<Rightarrow> element_props" where
  "attrs (path_el k a) = a"
| "attrs (rect_el k a) = a"
| "attrs _ = Map.empty"

fun is_path :: "'r react_node \<Rightarrow> bool" where
  "is_path (path_el k a) = True"
| "is_path _ = False"

fun is_rect :: "'r react_node \<Rightarrow> bool" where
  "is_rect (rect_el k a) = True"
| "is_rect _ = False"

fun default_shapes :: "'r react_node \<Rightarrow> 'r react_node list" where
  "default_shapes (Fragment ns) = concat (map default_shapes ns)"
| "default_shapes (Group ns) = concat (map default_shapes ns)"
| "default_shapes (path_el k a) = [path_el k a]"
| "default_shapes (rect_el k a) = [rect_el k a]"
| "default_shapes null = []"
| "default_shapes (Rendered r) = []"

definition emitted :: "error + 'r react_node \<Rightarrow> 'r react_node list" where
  "emitted r = (case r of Inl e \<Rightarrow> [] | Inr out \<Rightarrow> default_shapes out)"

subsection \<open>A concrete input\<close>

text \<open>
  A computed graph with two nodes and three links: node \<open>B\<close> has no vertical bounds;
  the first link has width \<open>0\<close>, the second has no width, the third has a negative
  width. \<open>example_layout\<close> is an engine that returns the graph it is given;
  \<open>example_path\<close> is a path generator that resolves no path for a link without a width.
  They are the inputs at which the general theorems are instantiated.
\<close>

definition example_graph :: "(string, string) SankeyGraph" where
  "example_graph =
     \<lparr>nodes =
        [\<lparr>x0 = Some (Finite 0), x1 = Some (Finite 24), y0 = Some (Finite 0),
          y1 = Some (Finite 100), node_datum = ''A''\<rparr>,
         \<lparr>x0 = Some (Finite 76), x1 = Some (Finite 100), y0 = None,
          y1 = None, node_datum = ''B''\<rparr>],
      links =
        [\<lparr>width = Some (Finite 0), link_datum = ''A-B''\<rparr>,
         \<lparr>width = None, link_datum = ''B-A''\<rparr>,
         \<lparr>width = Some (Finite (- 3)), link_datum = ''A-A''\<rparr>]\<rparr>"

definition example_props :: "(string, string, string) SankeyProps" where
  "example_props =
     \<lparr>root_prop = example_graph, children = None, nodeId = None, nodeWidth = None,
      nodePadding = None, nodeAlign = None, extent = None, size_prop = None,
      iterations = None, nodeSort = None, linkSort = None, nodeProps = None,
      linkProps = None, sourceAccessor = None, targetAccessor = None\<rparr>"

definition example_layout ::
  "('n, 'l) sankey_call list \<Rightarrow> ('n, 'l) SankeyGraph \<Rightarrow> error + ('n, 'l) SankeyGraph" where
  "example_layout calls graph = Inr graph"

definition example_path :: "'l path_call list \<Rightarrow> 'l SankeyLink \<Rightarrow> string option" where
  "example_path calls link = (case width link of Some w \<Rightarrow> Some ''M24,50L76,50'' | None \<Rightarrow> None)"

definition example_render :: "(string, string) SankeyGraph \<Rightarrow> string" where
  "example_render graph = ''custom''"


text \<open>
  A computed graph whose first node has all four bounds, none of them zero, and whose
  second node has no right edge.
\<close>

definition example_nodes :: "(string, string) SankeyGraph" where
  "example_nodes =
     \<lparr>nodes =
        [\<lparr>x0 = Some (Finite 76), x1 = Some (Finite 100), y0 = Some (Finite 20),
          y1 = Some (Finite 80), node_datum = ''C''\<rparr>,
         \<lparr>x0 = Some (Finite 0), x1 = None, y0 = Some (Finite 0),
          y1 = Some (Finite 10), node_datum = ''D''\<rparr>],
      links = []\<rparr>"

definition example_nodes_props :: "(string, string, string) SankeyProps" where
  "example_nodes_props = example_props\<lparr>root_prop := example_nodes\<rparr>"

section \<open>Properties\<close>

subsection \<open>Subtraction of doubles\<close>

text \<open>
  The subtraction is exact on integers whose difference has at most 53 bits; it rounds
  where the exact difference is not a double, and overflows beyond the largest double.
\<close>

lemma round_half_even_of_int: "round_half_even (of_int m) = m"
  by (simp add: round_half_even_def)

lemma scaled_int:
  fixes k :: int
  assumes "s \<le> n"
  shows "real_of_int k * 2 ^ n / 2 ^ s = of_int (k * 2 ^ (n - s))"
    and "real_of_int (k * 2 ^ (n - s)) * 2 ^ s / 2 ^ n = of_int k"
proof -
  have "(2::real) ^ n = 2 ^ (n - s) * 2 ^ s"
    using assms by (simp flip: power_add)
  then show "real_of_int k * 2 ^ n / 2 ^ s = of_int (k * 2 ^ (n - s))"
    and "real_of_int (k * 2 ^ (n - s)) * 2 ^ s / 2 ^ n = of_int k"
    by simp_all
qed

lemma to_double_of_int:
  assumes "\<bar>k\<bar> < 2 ^ 53"
  shows "to_double (of_int k) = Finite (of_int k)"
proof (cases "k = 0")
  case True
  then show ?thesis by (simp add: to_double_def round_half_even_def)
next
  case False
  define a where "a = \<bar>k\<bar>"
  have a: "0 < a" "a < 2 ^ 53" using False assms by (simp_all add: a_def)
  have small: "\<not> (2 ^ 1024 - 2 ^ 970 \<le> \<bar>real_of_int k\<bar>)"
  proof -
    have "\<bar>real_of_int k\<bar> < 2 ^ 53"
      using assms by (metis of_int_abs of_int_less_numeral_power_cancel_iff)
    moreover have "(2::real) ^ 53 \<le> 2 ^ 1024 - 2 ^ 970" by simp
    ultimately show ?thesis by linarith
  qed
  have fl: "\<lfloor>\<bar>real_of_int k * 2 ^ 1074\<bar>\<rfloor> = a * 2 ^ 1074"
  proof -
    have "\<bar>real_of_int k * 2 ^ 1074\<bar> = of_int (a * 2 ^ 1074)"
      by (simp add: a_def abs_mult)
    then show ?thesis by (simp only: floor_of_int)
  qed
  have b: "bitlen a \<le> 53" using a(2) by (simp add: bitlen_le_iff_power)
  define s where "s = nat (bitlen a + 1021)"
  have s: "s \<le> 1074" using b by (simp add: s_def)
  have "bitlen (a * 2 ^ 1074) = bitlen a + int 1074"
    using a(1) by (rule bitlen_pow2)
  then have bl: "nat (bitlen \<lfloor>\<bar>real_of_int k * 2 ^ 1074\<bar>\<rfloor> - 53) = s"
    unfolding fl s_def by simp
  have "of_int (round_half_even (real_of_int k * 2 ^ 1074 / 2 ^ s)) * 2 ^ s / 2 ^ 1074
      = real_of_int k"
    unfolding scaled_int(1) [OF s] round_half_even_of_int by (rule scaled_int(2) [OF s])
  then show ?thesis
    unfolding to_double_def Let_def bl using small by (simp only: if_False)
qed

lemma to_double_numeral:
  assumes "(numeral n :: int) < 2 ^ 53"
  shows "to_double (numeral n) = Finite (numeral n)"
  using to_double_of_int [of "numeral n"] assms by simp

lemma js_sub_of_int:
  assumes "\<bar>k - l\<bar> < 2 ^ 53"
  shows "js_sub (Finite (of_int k)) (Finite (of_int l)) = Finite (of_int (k - l))"
  using to_double_of_int [OF assms] by simp

lemma js_sub_example: "js_sub (Finite 100) (Finite 76) = Finite 24"
  by (simp add: to_double_numeral)

lemma js_sub_rounds: "js_sub (Finite 1) (Finite (1 / 2 ^ 60)) = Finite 1"
proof -
  have "bitlen (2 ^ 1074 - 2 ^ 1014) = 1074"
    by (intro antisym) (simp_all add: bitlen_le_iff_power bitlen_ge_iff_power)
  then show ?thesis
    by (simp add: to_double_def round_half_even_def Let_def)
qed

lemma js_sub_tie_to_even:
  "js_sub (Finite (2 ^ 53)) (Finite (- 1)) = Finite (2 ^ 53)"
  "js_sub (Finite (2 ^ 53 + 2)) (Finite (- 1)) = Finite (2 ^ 53 + 4)"
proof -
  have "bitlen ((2 ^ 53 + 1) * 2 ^ 1074) = 1128"
    by (intro antisym) (simp_all add: bitlen_le_iff_power bitlen_ge_iff_power)
  then show "js_sub (Finite (2 ^ 53)) (Finite (- 1)) = Finite (2 ^ 53)"
    by (simp add: to_double_def round_half_even_def Let_def)
  have "bitlen ((2 ^ 53 + 3) * 2 ^ 1074) = 1128"
    by (intro antisym) (simp_all add: bitlen_le_iff_power bitlen_ge_iff_power)
  then show "js_sub (Finite (2 ^ 53 + 2)) (Finite (- 1)) = Finite (2 ^ 53 + 4)"
    by (simp add: to_double_def round_half_even_def Let_def)
qed

lemma js_sub_overflows:
  "js_sub (Finite ((2 ^ 53 - 1) * 2 ^ 971)) (Finite (- ((2 ^ 53 - 1) * 2 ^ 971))) = PosInf"
  by (simp add: to_double_def)

subsection \<open>Auxiliary facts\<close>

lemma in_when_given: "c \<in> set (when_given call opt) \<longleftrightarrow> (\<exists>v. opt = Some v \<and> c = call v)"
  by (cases opt) (auto simp: when_given_def)

lemma in_when_truthy:
  "c \<in> set (when_truthy call opt) \<longleftrightarrow> (\<exists>v. opt = Some v \<and> truthy v \<and> c = call v)"
  by (cases opt) (auto simp: when_truthy_def)

lemma in_configure:
  "c \<in> set (configure p) \<longleftrightarrow>
     (\<exists>v. nodeId p = Some v \<and> c = call_nodeId v) \<or>
     (\<exists>v. nodeWidth p = Some v \<and> truthy v \<and> c = call_nodeWidth v) \<or>
     (\<exists>v. nodePadding p = Some v \<and> truthy v \<and> c = call_nodePadding v) \<or>
     (\<exists>v. nodeAlign p = Some v \<and> c = call_nodeAlign v) \<or>
     (\<exists>v. extent p = Some v \<and> c = call_extent v) \<or>
     (\<exists>v. size_prop p = Some v \<and> c = call_size v) \<or>
     (\<exists>v. iterations p = Some v \<and> truthy v \<and> c = call_iterations v) \<or>
     (\<exists>v. nodeSort p = Some v \<and> c = call_nodeSort v) \<or>
     (\<exists>v. linkSort p = Some v \<and> c = call_linkSort v)"
  unfolding configure_def set_append Un_iff in_when_given in_when_truthy by blast

lemma Sankey_default:
  assumes "children p = None" and "d3sankey (configure p) (root_prop p) = Inr graph"
  shows "Sankey d3sankey slh p =
    Inr (Fragment
      [Group (map (\<lambda>(i, link). link_path (or_empty (linkProps p)) (slh (configure_path p) link) i link)
                (enumerate 0 (links graph))),
       Group (map (\<lambda>(i, node). node_rect (or_empty (nodeProps p)) i node)
                (enumerate 0 (nodes graph)))])"
  using assms by (simp add: Sankey_def)

lemma Sankey_same:
  assumes "configure p = configure q" and "root_prop p = root_prop q"
    and "configure_path p = configure_path q" and "children p = children q"
    and "linkProps p = linkProps q" and "nodeProps p = nodeProps q"
  shows "Sankey d3sankey slh p = Sankey d3sankey slh q"
  using assms by (simp add: Sankey_def split: sum.splits option.splits)

lemma link_elements_nth:
  assumes "children p = None" and "d3sankey (configure p) (root_prop p) = Inr graph"
    and "i < length (links graph)"
  shows "link_elements (Sankey d3sankey slh p) ! i =
     link_path (or_empty (linkProps p)) (slh (configure_path p) (links graph ! i)) i (links graph ! i)"
  using assms by (simp add: Sankey_default nth_enumerate_eq)

lemma node_elements_nth:
  assumes "children p = None" and "d3sankey (configure p) (root_prop p) = Inr graph"
    and "i < length (nodes graph)"
  shows "node_elements (Sankey d3sankey slh p) ! i =
     node_rect (or_empty (nodeProps p)) i (nodes graph ! i)"
  using assms by (simp add: Sankey_default nth_enumerate_eq)

lemma Math_max_ge: "w \<noteq> NaN \<Longrightarrow> js_ge (Math_max (Finite 1) w) (Finite 1)"
  by (cases w) auto

lemma Sankey_default_tree:
  assumes "children p = None" and "d3sankey (configure p) (root_prop p) = Inr graph"
  shows "Sankey d3sankey slh p =
           Inr (Fragment [Group (link_elements (Sankey d3sankey slh p)),
                          Group (node_elements (Sankey d3sankey slh p))])"
    and "length (link_elements (Sankey d3sankey slh p)) = length (links graph)"
    and "length (node_elements (Sankey d3sankey slh p)) = length (nodes graph)"
  using assms by (simp_all add: Sankey_default)

lemma node_rect_cases:
  "node_rect nprops i node =
     (if x0 node = None \<or> x1 node = None \<or> y0 node = None \<or> y1 node = None then null
      else rect_el i
             (spread
                [Style Fill \<mapsto> Str DEFAULT_COLOR,
                 Width \<mapsto> Num (js_sub (the (x1 node)) (the (x0 node))),
                 Height \<mapsto> Num (js_sub (the (y1 node)) (the (y0 node))),
                 X \<mapsto> Num (the (x0 node)),
                 Y \<mapsto> Num (the (y0 node))]
                nprops))"
  by (simp add: node_rect_def split: option.splits)

subsection \<open>Configuration of the layout engine\<close>

text \<open>
  C1. For each of the nine options, the component calls the engine's setter only when the
  option is provided, and then with the provided value; for an omitted option the setter
  is never called; and a numeric setter is never called with a falsy value. So no setter
  ever receives \<open>undefined\<close> or a falsy override.
\<close>

theorem setter_called_only_for_provided_option:
  "(\<forall>v. call_nodeId v \<in> set (configure p) \<longrightarrow> nodeId p = Some v) \<and>
   (\<forall>v. call_nodeWidth v \<in> set (configure p) \<longrightarrow> nodeWidth p = Some v \<and> truthy v) \<and>
   (\<forall>v. call_nodePadding v \<in> set (configure p) \<longrightarrow> nodePadding p = Some v \<and> truthy v) \<and>
   (\<forall>v. call_nodeAlign v \<in> set (configure p) \<longrightarrow> nodeAlign p = Some v) \<and>
   (\<forall>v. call_extent v \<in> set (configure p) \<longrightarrow> extent p = Some v) \<and>
   (\<forall>v. call_size v \<in> set (configure p) \<longrightarrow> size_prop p = Some v) \<and>
   (\<forall>v. call_iterations v \<in> set (configure p) \<longrightarrow> iterations p = Some v \<and> truthy v) \<and>
   (\<forall>v. call_nodeSort v \<in> set (configure p) \<longrightarrow> nodeSort p = Some v) \<and>
   (\<forall>v. call_linkSort v \<in> set (configure p) \<longrightarrow> linkSort p = Some v) \<and>
   (nodeId p = None \<longrightarrow> (\<forall>v. call_nodeId v \<notin> set (configure p))) \<and>
   (nodeWidth p = None \<longrightarrow> (\<forall>v. call_nodeWidth v \<notin> set (configure p))) \<and>
   (nodePadding p = None \<longrightarrow> (\<forall>v. call_nodePadding v \<notin> set (configure p))) \<and>
   (nodeAlign p = None \<longrightarrow> (\<forall>v. call_nodeAlign v \<notin> set (configure p))) \<and>
   (extent p = None \<longrightarrow> (\<forall>v. call_extent v \<notin> set (configure p))) \<and>
   (size_prop p = None \<longrightarrow> (\<forall>v. call_size v \<notin> set (configure p))) \<and>
   (iterations p = None \<longrightarrow> (\<forall>v. call_iterations v \<notin> set (configure p))) \<and>
   (nodeSort p = None \<longrightarrow> (\<forall>v. call_nodeSort v \<notin> set (configure p))) \<and>
   (linkSort p = None \<longrightarrow> (\<forall>v. call_linkSort v \<notin> set (configure p)))"
  by (simp add: in_configure)

theorem setter_called_only_for_provided_option_witness:
  "call_nodeWidth (Finite 24) \<in> set (configure (example_props\<lparr>nodeWidth := Some (Finite 24)\<rparr>)) \<and>
   nodeWidth (example_props\<lparr>nodeWidth := Some (Finite 24)\<rparr>) = Some (Finite 24) \<and>
   truthy (Finite 24) \<and>
   iterations (example_props\<lparr>nodeWidth := Some (Finite 24)\<rparr>) = None \<and>
   call_iterations (Finite 6) \<notin> set (configure (example_props\<lparr>nodeWidth := Some (Finite 24)\<rparr>))"
  using setter_called_only_for_provided_option [of "example_props\<lparr>nodeWidth := Some (Finite 24)\<rparr>"]
  by (simp add: example_props_def configure_def when_given_def when_truthy_def truthy_def)

text \<open>
  C2. An iteration count of zero is a value the caller can give, and the claim is that the
  engine then runs with zero relaxation passes. The component tests \<^verbatim>\<open>if (iterations)\<close>,
  so with \<open>iterations = 0\<close> it makes no setter call at all: the engine is configured, and
  the result is, exactly as when \<open>iterations\<close> is omitted. A count of one is forwarded.
\<close>

theorem iterations_zero_not_forwarded:
  "configure (example_props\<lparr>iterations := Some (Finite 0)\<rparr>) = [] \<and>
   configure (example_props\<lparr>iterations := Some (Finite 0)\<rparr>) = configure example_props \<and>
   Sankey d3sankey slh (example_props\<lparr>iterations := Some (Finite 0)\<rparr>) =
     Sankey d3sankey slh example_props \<and>
   configure (example_props\<lparr>iterations := Some (Finite 1)\<rparr>) = [call_iterations (Finite 1)]"
proof -
  have c: "configure (example_props\<lparr>iterations := Some (Finite 0)\<rparr>) = []"
    by (simp add: example_props_def configure_def when_given_def when_truthy_def truthy_def)
  have e: "configure example_props = []"
    by (simp add: example_props_def configure_def when_given_def when_truthy_def)
  have s: "Sankey d3sankey slh (example_props\<lparr>iterations := Some (Finite 0)\<rparr>) =
      Sankey d3sankey slh example_props"
    by (rule Sankey_same) (simp_all add: c e configure_path_def)
  have o: "configure (example_props\<lparr>iterations := Some (Finite 1)\<rparr>) = [call_iterations (Finite 1)]"
    by (simp add: example_props_def configure_def when_given_def when_truthy_def truthy_def)
  show ?thesis using c e s o by simp
qed

subsection \<open>Override mode\<close>

text \<open>
  C3. When \<open>children\<close> is supplied, the component returns a fragment holding exactly
  what \<open>children\<close> returned for the computed graph (or throws what the engine threw, when
  there is no computed graph), and the tree contains no \<open>path\<close> and no \<open>rect\<close> element
  of the default rendering, hence none of its style attributes.
\<close>

theorem children_result_returned_as_is:
  assumes "children p = Some render"
  shows "Sankey d3sankey slh p =
           (case d3sankey (configure p) (root_prop p) of
              Inl e \<Rightarrow> Inl e
            | Inr graph \<Rightarrow> Inr (Fragment [Rendered (render graph)])) \<and>
         emitted (Sankey d3sankey slh p) = []"
  using assms by (simp add: Sankey_def emitted_def split: sum.splits)

theorem children_result_returned_as_is_witness:
  "children (example_props\<lparr>children := Some example_render\<rparr>) = Some example_render \<and>
   Sankey example_layout example_path (example_props\<lparr>children := Some example_render\<rparr>) =
     Inr (Fragment [Rendered (example_render example_graph)]) \<and>
   emitted (Sankey example_layout example_path (example_props\<lparr>children := Some example_render\<rparr>)) = []"
  using children_result_returned_as_is
    [of "example_props\<lparr>children := Some example_render\<rparr>" example_render example_layout example_path]
  by (simp add: example_props_def example_layout_def emitted_def)

subsection \<open>Default mode: links\<close>

text \<open>
  C4, as amended. In default mode, when \<open>linkProps\<close> has no \<open>strokeWidth\<close> key and the
  computed width of the link is not \<open>NaN\<close>, the \<open>strokeWidth\<close> of the link's path is a
  number that is at least 1, whether the width is zero, negative or undefined.
\<close>

theorem stroke_width_at_least_one_without_override:
  assumes "children p = None" and "d3sankey (configure p) (root_prop p) = Inr graph"
    and "i < length (links graph)"
    and "or_empty (linkProps p) StrokeWidth = None"
    and "width (links graph ! i) \<noteq> Some NaN"
  shows "\<exists>v. attrs (link_elements (Sankey d3sankey slh p) ! i) (Style StrokeWidth) = Some (Num v) \<and>
             js_ge v (Finite 1)"
proof -
  define w where "w = (case width (links graph ! i) of Some w \<Rightarrow> w | None \<Rightarrow> Finite 0)"
  have "w \<noteq> NaN"
    using assms(5) by (cases "width (links graph ! i)") (simp_all add: w_def)
  then have "js_ge (Math_max (Finite 1) w) (Finite 1)"
    by (rule Math_max_ge)
  moreover have "attrs (link_elements (Sankey d3sankey slh p) ! i) (Style StrokeWidth) =
      Some (Num (Math_max (Finite 1) w))"
    using assms(1-4) link_elements_nth [of p d3sankey graph i slh]
    by (simp add: link_path_def spread_def w_def)
  ultimately show ?thesis by blast
qed

theorem stroke_width_at_least_one_without_override_witness:
  "children example_props = None \<and>
   example_layout (configure example_props) (root_prop example_props) = Inr example_graph \<and>
   width (links example_graph ! 0) = Some (Finite 0) \<and>
   width (links example_graph ! 1) = None \<and>
   width (links example_graph ! 2) = Some (Finite (- 3)) \<and>
   (\<exists>v. attrs (link_elements (Sankey example_layout example_path example_props) ! 0)
          (Style StrokeWidth) = Some (Num v) \<and> js_ge v (Finite 1)) \<and>
   (\<exists>v. attrs (link_elements (Sankey example_layout example_path example_props) ! 1)
          (Style StrokeWidth) = Some (Num v) \<and> js_ge v (Finite 1)) \<and>
   (\<exists>v. attrs (link_elements (Sankey example_layout example_path example_props) ! 2)
          (Style StrokeWidth) = Some (Num v) \<and> js_ge v (Finite 1))"
  using stroke_width_at_least_one_without_override
      [of example_props example_layout example_graph 0 example_path]
    stroke_width_at_least_one_without_override
      [of example_props example_layout example_graph 1 example_path]
    stroke_width_at_least_one_without_override
      [of example_props example_layout example_graph 2 example_path]
  by (simp add: example_props_def example_layout_def example_graph_def or_empty_def)

text \<open>
  The width must not be \<open>NaN\<close>: \<^verbatim>\<open>Math.max(1, NaN)\<close> is \<open>NaN\<close>, which is not at least 1.
\<close>

lemma stroke_width_of_NaN_width:
  assumes "lprops StrokeWidth = None" and "width link = Some NaN"
  shows "attrs (link_path lprops d i link) (Style StrokeWidth) = Some (Num NaN)"
    and "\<not> js_ge NaN (Finite 1)"
  using assms by (simp_all add: link_path_def spread_def)

text \<open>
  The claim as stated (the stroke width is always at least 1) fails: \<open>linkProps\<close> is spread
  after the computed \<open>strokeWidth\<close>, so \<^verbatim>\<open>linkProps = {strokeWidth: 0}\<close> gives a path
  whose stroke width is 0.
\<close>

theorem stroke_width_override_below_one:
  "children (example_props\<lparr>linkProps := Some [StrokeWidth \<mapsto> Num (Finite 0)]\<rparr>) = None \<and>
   attrs (link_elements (Sankey example_layout example_path
            (example_props\<lparr>linkProps := Some [StrokeWidth \<mapsto> Num (Finite 0)]\<rparr>)) ! 0)
     (Style StrokeWidth) = Some (Num (Finite 0)) \<and>
   \<not> js_ge (Finite 0) (Finite 1)"
  using link_elements_nth
      [of "example_props\<lparr>linkProps := Some [StrokeWidth \<mapsto> Num (Finite 0)]\<rparr>"
          example_layout example_graph 0 example_path]
  by (simp add: example_props_def example_layout_def example_graph_def or_empty_def
      link_path_def spread_def)

text \<open>
  C5, as amended. In default mode, a link for which the path generator returns no path
  (\<^verbatim>\<open>null\<close>) is not left out: the component renders without failing, emits one element
  per link of the computed graph, and the element of that link is a \<open>path\<close> whose path
  data \<open>d\<close> is the empty string.
\<close>

theorem unresolved_path_rendered_as_empty_path:
  assumes "children p = None" and "d3sankey (configure p) (root_prop p) = Inr graph"
    and "i < length (links graph)"
    and "slh (configure_path p) (links graph ! i) = None"
  shows "Sankey d3sankey slh p =
           Inr (Fragment [Group (link_elements (Sankey d3sankey slh p)),
                          Group (node_elements (Sankey d3sankey slh p))]) \<and>
         length (link_elements (Sankey d3sankey slh p)) = length (links graph) \<and>
         is_path (link_elements (Sankey d3sankey slh p) ! i) \<and>
         attrs (link_elements (Sankey d3sankey slh p) ! i) D = Some (Str '''')"
proof -
  have "link_elements (Sankey d3sankey slh p) ! i =
      link_path (or_empty (linkProps p)) None i (links graph ! i)"
    using assms link_elements_nth [of p d3sankey graph i slh] by simp
  then have "is_path (link_elements (Sankey d3sankey slh p) ! i)"
    and "attrs (link_elements (Sankey d3sankey slh p) ! i) D = Some (Str '''')"
    by (simp_all add: link_path_def spread_def)
  then show ?thesis
    using Sankey_default_tree [of p d3sankey graph slh] assms(1,2) by simp
qed

theorem unresolved_path_rendered_as_empty_path_witness:
  "children example_props = None \<and>
   example_layout (configure example_props) (root_prop example_props) = Inr example_graph \<and>
   example_path (configure_path example_props) (links example_graph ! 1) = None \<and>
   length (link_elements (Sankey example_layout example_path example_props)) = 3 \<and>
   attrs (link_elements (Sankey example_layout example_path example_props) ! 1) D = Some (Str '''')"
  using unresolved_path_rendered_as_empty_path
      [of example_props example_layout example_graph 1 example_path]
  by (simp add: example_props_def example_layout_def example_graph_def example_path_def)

text \<open>
  The claim as stated (the link's shape is omitted from the output) fails: the second
  link of the example has no resolvable path, and its \<open>path\<close> element is among the
  elements the component emitted.
\<close>

theorem unresolved_path_still_emitted:
  "example_path (configure_path example_props) (links example_graph ! 1) = None \<and>
   is_path (link_elements (Sankey example_layout example_path example_props) ! 1) \<and>
   link_elements (Sankey example_layout example_path example_props) ! 1 \<in>
     set (emitted (Sankey example_layout example_path example_props))"
  using link_elements_nth [of example_props example_layout example_graph 1 example_path]
    Sankey_default [of example_props example_layout example_graph example_path]
  by (simp add: example_props_def example_layout_def example_graph_def example_path_def
      link_path_def emitted_def enumerate_eq_zip upt_rec node_rect_def)

text \<open>
  C8 (links and nodes). In default mode, when neither \<open>linkProps\<close> nor \<open>nodeProps\<close>
  supplies anything (omitted, or the empty object), every link's path has exactly
  \<open>fill = "transparent"\<close>, \<open>stroke = "#000"\<close> and \<open>strokeOpacity = 0.5\<close> (and, of the
  style attributes, otherwise only the computed \<open>strokeWidth\<close>), and every node's rect has
  \<open>fill = "#000"\<close> and no other style attribute.
\<close>

theorem default_style_without_overrides:
  assumes "children p = None" and "d3sankey (configure p) (root_prop p) = Inr graph"
    and "linkProps p = None \<or> linkProps p = Some Map.empty"
    and "nodeProps p = None \<or> nodeProps p = Some Map.empty"
  shows "(\<forall>i < length (links graph).
            is_path (link_elements (Sankey d3sankey slh p) ! i) \<and>
            attrs (link_elements (Sankey d3sankey slh p) ! i) (Style Fill) =
              Some (Str ''transparent'') \<and>
            attrs (link_elements (Sankey d3sankey slh p) ! i) (Style Stroke) =
              Some (Str ''#000'') \<and>
            attrs (link_elements (Sankey d3sankey slh p) ! i) (Style StrokeOpacity) =
              Some (Num (Finite (1 / 2))) \<and>
            (\<forall>s. s \<notin> {Fill, Stroke, StrokeOpacity, StrokeWidth} \<longrightarrow>
               attrs (link_elements (Sankey d3sankey slh p) ! i) (Style s) = None)) \<and>
         (\<forall>i < length (nodes graph).
            is_rect (node_elements (Sankey d3sankey slh p) ! i) \<longrightarrow>
            attrs (node_elements (Sankey d3sankey slh p) ! i) (Style Fill) = Some (Str ''#000'') \<and>
            (\<forall>s. s \<noteq> Fill \<longrightarrow>
               attrs (node_elements (Sankey d3sankey slh p) ! i) (Style s) = None))"
proof -
  have l: "or_empty (linkProps p) = Map.empty" and n: "or_empty (nodeProps p) = Map.empty"
    using assms(3,4) by (auto simp: or_empty_def)
  have "link_elements (Sankey d3sankey slh p) ! i =
      link_path Map.empty (slh (configure_path p) (links graph ! i)) i (links graph ! i)"
    if "i < length (links graph)" for i
    using assms(1,2) that link_elements_nth [of p d3sankey graph i slh] by (simp add: l)
  moreover have "node_elements (Sankey d3sankey slh p) ! i =
      node_rect Map.empty i (nodes graph ! i)"
    if "i < length (nodes graph)" for i
    using assms(1,2) that node_elements_nth [of p d3sankey graph i slh] by (simp add: n)
  ultimately show ?thesis
    by (simp add: link_path_def node_rect_cases spread_def DEFAULT_COLOR_def)
qed

theorem default_style_without_overrides_witness:
  "children example_props = None \<and>
   example_layout (configure example_props) (root_prop example_props) = Inr example_graph \<and>
   linkProps example_props = None \<and> nodeProps example_props = None \<and>
   attrs (link_elements (Sankey example_layout example_path example_props) ! 0) (Style Fill) =
     Some (Str ''transparent'') \<and>
   attrs (link_elements (Sankey example_layout example_path example_props) ! 0) (Style Stroke) =
     Some (Str ''#000'') \<and>
   attrs (link_elements (Sankey example_layout example_path example_props) ! 0)
     (Style StrokeOpacity) = Some (Num (Finite (1 / 2))) \<and>
   is_rect (node_elements (Sankey example_layout example_path example_props) ! 0) \<and>
   attrs (node_elements (Sankey example_layout example_path example_props) ! 0) (Style Fill) =
     Some (Str ''#000'')"
proof -
  have h: "children example_props = None"
    "example_layout (configure example_props) (root_prop example_props) = Inr example_graph"
    "linkProps example_props = None \<or> linkProps example_props = Some Map.empty"
    "nodeProps example_props = None \<or> nodeProps example_props = Some Map.empty"
    by (simp_all add: example_props_def example_layout_def)
  have r: "is_rect (node_elements (Sankey example_layout example_path example_props) ! 0)"
    using node_elements_nth [of example_props example_layout example_graph 0 example_path] h(1,2)
    by (simp add: example_graph_def node_rect_cases)
  show ?thesis
    using default_style_without_overrides
        [of example_props example_layout example_graph example_path] h r
    by (simp add: example_graph_def example_props_def)
qed



subsection \<open>Default mode: nodes\<close>

text \<open>
  C6. In default mode the component renders without failing and the second group has one
  entry per node of the computed graph. The entry of a node is a \<open>rect\<close> exactly when
  all four bounds \<open>x0\<close>, \<open>x1\<close>, \<open>y0\<close>, \<open>y1\<close> are defined; the rect then has
  \<open>x = x0\<close>, \<open>y = y0\<close>, \<open>width = x1 - x0\<close> and \<open>height = y1 - y0\<close>, the differences
  being those of JavaScript: for finite bounds, the exact difference rounded to a double.
  A node with an undefined bound leaves \<^verbatim>\<open>null\<close>, which renders nothing.
\<close>

theorem rect_iff_all_bounds_defined:
  assumes "children p = None" and "d3sankey (configure p) (root_prop p) = Inr graph"
    and "i < length (nodes graph)"
  shows "Sankey d3sankey slh p =
           Inr (Fragment [Group (link_elements (Sankey d3sankey slh p)),
                          Group (node_elements (Sankey d3sankey slh p))]) \<and>
         length (node_elements (Sankey d3sankey slh p)) = length (nodes graph) \<and>
         (is_rect (node_elements (Sankey d3sankey slh p) ! i) \<longleftrightarrow>
            x0 (nodes graph ! i) \<noteq> None \<and> x1 (nodes graph ! i) \<noteq> None \<and>
            y0 (nodes graph ! i) \<noteq> None \<and> y1 (nodes graph ! i) \<noteq> None) \<and>
         (\<forall>a0 a1 b0 b1.
            x0 (nodes graph ! i) = Some a0 \<and> x1 (nodes graph ! i) = Some a1 \<and>
            y0 (nodes graph ! i) = Some b0 \<and> y1 (nodes graph ! i) = Some b1 \<longrightarrow>
            (\<exists>props. node_elements (Sankey d3sankey slh p) ! i = rect_el i props \<and>
               props X = Some (Num a0) \<and> props Y = Some (Num b0) \<and>
               props Width = Some (Num (js_sub a1 a0)) \<and>
               props Height = Some (Num (js_sub b1 b0)) \<and>
               (\<forall>r0 r1. a0 = Finite r0 \<and> a1 = Finite r1 \<longrightarrow>
                  props Width = Some (Num (to_double (r1 - r0)))) \<and>
               (\<forall>r0 r1. b0 = Finite r0 \<and> b1 = Finite r1 \<longrightarrow>
                  props Height = Some (Num (to_double (r1 - r0)))))) \<and>
         (x0 (nodes graph ! i) = None \<or> x1 (nodes graph ! i) = None \<or>
          y0 (nodes graph ! i) = None \<or> y1 (nodes graph ! i) = None \<longrightarrow>
            node_elements (Sankey d3sankey slh p) ! i = null)"
proof -
  have n: "node_elements (Sankey d3sankey slh p) ! i =
      node_rect (or_empty (nodeProps p)) i (nodes graph ! i)"
    using assms by (rule node_elements_nth)
  have "is_rect (node_rect (or_empty (nodeProps p)) i (nodes graph ! i) :: 'c react_node) \<longleftrightarrow>
      x0 (nodes graph ! i) \<noteq> None \<and> x1 (nodes graph ! i) \<noteq> None \<and>
      y0 (nodes graph ! i) \<noteq> None \<and> y1 (nodes graph ! i) \<noteq> None"
    by (simp add: node_rect_cases)
  moreover have "\<exists>props. (node_rect (or_empty (nodeProps p)) i (nodes graph ! i) :: 'c react_node) =
        rect_el i props \<and>
      props X = Some (Num a0) \<and> props Y = Some (Num b0) \<and>
      props Width = Some (Num (js_sub a1 a0)) \<and> props Height = Some (Num (js_sub b1 b0)) \<and>
      (\<forall>r0 r1. a0 = Finite r0 \<and> a1 = Finite r1 \<longrightarrow>
         props Width = Some (Num (to_double (r1 - r0)))) \<and>
      (\<forall>r0 r1. b0 = Finite r0 \<and> b1 = Finite r1 \<longrightarrow>
         props Height = Some (Num (to_double (r1 - r0))))"
    if "x0 (nodes graph ! i) = Some a0 \<and> x1 (nodes graph ! i) = Some a1 \<and>
        y0 (nodes graph ! i) = Some b0 \<and> y1 (nodes graph ! i) = Some b1" for a0 a1 b0 b1
    using that by (simp add: node_rect_cases spread_def)
  moreover have "(node_rect (or_empty (nodeProps p)) i (nodes graph ! i) :: 'c react_node) = null"
    if "x0 (nodes graph ! i) = None \<or> x1 (nodes graph ! i) = None \<or>
        y0 (nodes graph ! i) = None \<or> y1 (nodes graph ! i) = None"
    using that by (simp add: node_rect_cases)
  ultimately show ?thesis
    using Sankey_default_tree [of p d3sankey graph slh] assms(1,2) unfolding n by blast
qed

theorem rect_iff_all_bounds_defined_witness:
  "children example_nodes_props = None \<and>
   example_layout (configure example_nodes_props) (root_prop example_nodes_props) =
     Inr example_nodes \<and>
   is_rect (node_elements (Sankey example_layout example_path example_nodes_props) ! 0) \<and>
   attrs (node_elements (Sankey example_layout example_path example_nodes_props) ! 0) X
     = Some (Num (Finite 76)) \<and>
   attrs (node_elements (Sankey example_layout example_path example_nodes_props) ! 0) Y
     = Some (Num (Finite 20)) \<and>
   attrs (node_elements (Sankey example_layout example_path example_nodes_props) ! 0) Width
     = Some (Num (Finite 24)) \<and>
   attrs (node_elements (Sankey example_layout example_path example_nodes_props) ! 0) Height
     = Some (Num (Finite 60)) \<and>
   x1 (nodes example_nodes ! 1) = None \<and>
   \<not> is_rect (node_elements (Sankey example_layout example_path example_nodes_props) ! 1) \<and>
   node_elements (Sankey example_layout example_path example_nodes_props) ! 1 = null"
  using rect_iff_all_bounds_defined
      [of example_nodes_props example_layout example_nodes 0 example_path]
    rect_iff_all_bounds_defined
      [of example_nodes_props example_layout example_nodes 1 example_path]
  by (simp add: example_nodes_props_def example_props_def example_layout_def example_nodes_def
      to_double_numeral) auto

subsection \<open>Falsy numbers\<close>

text \<open>
  C9. A numeric option that is supplied with a falsy value (\<open>0\<close> or \<open>NaN\<close>) is treated
  exactly as if it were omitted: its setter is not called, the engine is configured with
  the same calls, and the component returns the same result. \<open>0\<close> is such a value, for
  \<open>nodeWidth\<close>, \<open>nodePadding\<close> and \<open>iterations\<close>. The other six options are functions
  and arrays, which have no falsy value.
\<close>

theorem falsy_number_treated_as_omitted:
  "(nodeWidth p = Some v \<and> \<not> truthy v \<longrightarrow>
      (\<forall>w. call_nodeWidth w \<notin> set (configure p)) \<and>
      configure p = configure (p\<lparr>nodeWidth := None\<rparr>) \<and>
      Sankey d3sankey slh p = Sankey d3sankey slh (p\<lparr>nodeWidth := None\<rparr>)) \<and>
   (nodePadding p = Some v \<and> \<not> truthy v \<longrightarrow>
      (\<forall>w. call_nodePadding w \<notin> set (configure p)) \<and>
      configure p = configure (p\<lparr>nodePadding := None\<rparr>) \<and>
      Sankey d3sankey slh p = Sankey d3sankey slh (p\<lparr>nodePadding := None\<rparr>)) \<and>
   (iterations p = Some v \<and> \<not> truthy v \<longrightarrow>
      (\<forall>w. call_iterations w \<notin> set (configure p)) \<and>
      configure p = configure (p\<lparr>iterations := None\<rparr>) \<and>
      Sankey d3sankey slh p = Sankey d3sankey slh (p\<lparr>iterations := None\<rparr>)) \<and>
   \<not> truthy (Finite 0)"
proof -
  have w: "configure p = configure (p\<lparr>nodeWidth := None\<rparr>)"
    if "nodeWidth p = Some v" and "\<not> truthy v"
    using that by (simp add: configure_def when_truthy_def when_given_def)
  have d: "configure p = configure (p\<lparr>nodePadding := None\<rparr>)"
    if "nodePadding p = Some v" and "\<not> truthy v"
    using that by (simp add: configure_def when_truthy_def when_given_def)
  have i: "configure p = configure (p\<lparr>iterations := None\<rparr>)"
    if "iterations p = Some v" and "\<not> truthy v"
    using that by (simp add: configure_def when_truthy_def when_given_def)
  have "Sankey d3sankey slh p = Sankey d3sankey slh (p\<lparr>nodeWidth := None\<rparr>)"
    if "nodeWidth p = Some v" and "\<not> truthy v"
    by (rule Sankey_same) (simp_all add: w [OF that] configure_path_def)
  moreover have "Sankey d3sankey slh p = Sankey d3sankey slh (p\<lparr>nodePadding := None\<rparr>)"
    if "nodePadding p = Some v" and "\<not> truthy v"
    by (rule Sankey_same) (simp_all add: d [OF that] configure_path_def)
  moreover have "Sankey d3sankey slh p = Sankey d3sankey slh (p\<lparr>iterations := None\<rparr>)"
    if "iterations p = Some v" and "\<not> truthy v"
    by (rule Sankey_same) (simp_all add: i [OF that] configure_path_def)
  ultimately show ?thesis
    using w d i by (auto simp: in_configure truthy_def)
qed

theorem falsy_number_treated_as_omitted_witness:
  "nodeWidth (example_props\<lparr>nodeWidth := Some (Finite 0)\<rparr>) = Some (Finite 0) \<and>
   \<not> truthy (Finite 0) \<and>
   call_nodeWidth (Finite 0) \<notin> set (configure (example_props\<lparr>nodeWidth := Some (Finite 0)\<rparr>)) \<and>
   configure (example_props\<lparr>nodeWidth := Some (Finite 0)\<rparr>) = configure example_props \<and>
   nodePadding (example_props\<lparr>nodePadding := Some NaN\<rparr>) = Some NaN \<and>
   \<not> truthy NaN \<and>
   configure (example_props\<lparr>nodePadding := Some NaN\<rparr>) = configure example_props \<and>
   Sankey example_layout example_path (example_props\<lparr>nodePadding := Some NaN\<rparr>) =
     Sankey example_layout example_path example_props"
proof -
  have h: "nodeWidth (example_props\<lparr>nodeWidth := Some (Finite 0)\<rparr>) = Some (Finite 0)"
    "nodePadding (example_props\<lparr>nodePadding := Some NaN\<rparr>) = Some NaN"
    "\<not> truthy (Finite 0)" "\<not> truthy NaN"
    by (simp_all add: truthy_def)
  have e: "example_props\<lparr>nodeWidth := None\<rparr> = example_props"
    "example_props\<lparr>nodePadding := None\<rparr> = example_props"
    by (simp_all add: example_props_def)
  have w: "(\<forall>w. call_nodeWidth w \<notin> set (configure (example_props\<lparr>nodeWidth := Some (Finite 0)\<rparr>))) \<and>
      configure (example_props\<lparr>nodeWidth := Some (Finite 0)\<rparr>) = configure example_props"
    using falsy_number_treated_as_omitted
        [of "example_props\<lparr>nodeWidth := Some (Finite 0)\<rparr>" "Finite 0" example_layout example_path]
      h(1,3)
    by (auto simp: e)
  have d: "configure (example_props\<lparr>nodePadding := Some NaN\<rparr>) = configure example_props \<and>
      Sankey example_layout example_path (example_props\<lparr>nodePadding := Some NaN\<rparr>) =
        Sankey example_layout example_path example_props"
    using falsy_number_treated_as_omitted
        [of "example_props\<lparr>nodePadding := Some NaN\<rparr>" NaN example_layout example_path]
      h(2,4)
    by (auto simp: e)
  show ?thesis
    using w d h by blast
qed

end
